theory Spec2Isabelle
  imports Complex_Main "HOL-Library.Sublist"
begin


section \<open>The raw-socket HTTP transport of RESTler (messaging.py)\<close>

text \<open>
  A shallow embedding of class \<open>HttpRawSock\<close> of
  \<^verbatim>\<open>restler/engine/transport_layer/messaging.py\<close>: the framing of an outgoing
  message, the send throttle, the three read loops of the response assembler and the
  retry logic of \<open>sendRecv\<close>.

  The socket is the environment. Every operation on it (\<open>close\<close>, connection set-up,
  \<open>sendall\<close>, \<open>settimeout\<close> followed by \<open>recv\<close>) takes the next entry of a script of
  replies; when the script is used up the operation does not return and the call is
  \<open>Blocked\<close>. Each loop of the source performs one read per iteration, so each loop
  is a recursion on the script.
\<close>

subsection \<open>Python strings and byte strings\<close>

text \<open>
  A Python \<open>str\<close> is a sequence of Unicode code points and \<open>len\<close> counts code points;
  a \<open>bytes\<close> object is a sequence of octets and \<open>len\<close> counts octets. Both are lists of
  naturals here, under two names. \<open>lit\<close> writes an ASCII literal of the source.
\<close>

type_synonym pystr = "nat list"
type_synonym bytes = "nat list"

definition lit :: "string \<Rightarrow> pystr" where
  "lit cs = map of_char cs"

definition CRLF :: pystr where
  "CRLF = [13, 10]"

definition DELIM :: pystr where
  "DELIM = [13, 10, 13, 10]"

text \<open>\<open>s.find(sub)\<close>: the lowest index where \<open>sub\<close> starts, \<open>None\<close> for Python's -1.\<close>

fun str_find :: "'a list \<Rightarrow> 'a list \<Rightarrow> nat option" where
  "str_find sub [] = (if sub = [] then Some 0 else None)"
| "str_find sub (x # xs) =
     (if prefix sub (x # xs) then Some 0 else map_option Suc (str_find sub xs))"

text \<open>\<open>sub in s\<close>.\<close>

definition contains :: "'a list \<Rightarrow> 'a list \<Rightarrow> bool" where
  "contains sub s = (str_find sub s \<noteq> None)"

text \<open>\<open>s.endswith(sub)\<close>.\<close>

definition endswith :: "'a list \<Rightarrow> 'a list \<Rightarrow> bool" where
  "endswith s sub = suffix sub s"

text \<open>
  \<open>s.split(sep)\<close> for a separator that is not empty (every separator of the source is a
  literal): the pieces between the occurrences of \<open>sep\<close>, found from the left.
\<close>

function py_split :: "'a list \<Rightarrow> 'a list \<Rightarrow> 'a list list" where
  "py_split sep s =
     (if sep = [] then [s]
      else case str_find sep s of
             None \<Rightarrow> [s]
           | Some i \<Rightarrow> take i s # py_split sep (drop (i + length sep) s))"
  by pat_completeness auto
termination
proof (relation "measure (\<lambda>(sep, s). length s)")
  show "wf (measure (\<lambda>(sep, s::'a list). length s))"
    by simp
next
  fix sep s :: "'a list" and i
  assume "sep \<noteq> []" and "str_find sep s = Some i"
  then have "s \<noteq> []"
    by (cases s) auto
  with \<open>sep \<noteq> []\<close> show "((sep, drop (i + length sep) s), (sep, s)) \<in> measure (\<lambda>(sep, s). length s)"
    by simp
qed

declare py_split.simps [simp del]

text \<open>
  \<open>str.lower\<close> and \<open>str.upper\<close> on the ASCII letters; other code points are left as
  they are. (The literals the source compares with, \<open>content-length: \<close> and \<open>HEAD\<close>,
  are made of characters that only ASCII letters map to.)
\<close>

definition lower_char :: "nat \<Rightarrow> nat" where
  "lower_char c = (if 65 \<le> c \<and> c \<le> 90 then c + 32 else c)"

definition upper_char :: "nat \<Rightarrow> nat" where
  "upper_char c = (if 97 \<le> c \<and> c \<le> 122 then c - 32 else c)"

definition py_lower :: "pystr \<Rightarrow> pystr" where
  "py_lower s = map lower_char s"

definition py_upper :: "pystr \<Rightarrow> pystr" where
  "py_upper s = map upper_char s"

text \<open>\<open>s.strip(chars)\<close>: the characters of \<open>chars\<close> are removed from both ends.\<close>

definition py_strip :: "pystr \<Rightarrow> pystr \<Rightarrow> pystr" where
  "py_strip chars s =
     rev (dropWhile (\<lambda>c. c \<in> set chars) (rev (dropWhile (\<lambda>c. c \<in> set chars) s)))"

text \<open>The decimal digits of a number, as an f-string prints a non-negative \<open>int\<close>.\<close>

fun dec :: "nat \<Rightarrow> pystr" where
  "dec n = (if n < 10 then [48 + n] else dec (n div 10) @ [48 + n mod 10])"

declare dec.simps [simp del]

text \<open>
  \<open>int(s)\<close> on ASCII input: white space around the number is dropped, one sign is
  allowed, the digits may be grouped by single underscores. \<open>None\<close> is Python's
  \<open>ValueError\<close>.
\<close>

definition is_space :: "nat \<Rightarrow> bool" where
  "is_space c = (c = 32 \<or> (9 \<le> c \<and> c \<le> 13) \<or> (28 \<le> c \<and> c \<le> 31))"

definition is_digit :: "nat \<Rightarrow> bool" where
  "is_digit c = (48 \<le> c \<and> c \<le> 57)"

fun digits_value :: "nat \<Rightarrow> pystr \<Rightarrow> nat option" where
  "digits_value acc [] = Some acc"
| "digits_value acc [c] = (if is_digit c then Some (10 * acc + (c - 48)) else None)"
| "digits_value acc (c # d # cs) =
     (if is_digit c then
        (if d = 95 then
           (if cs = [] then None else digits_value (10 * acc + (c - 48)) cs)
         else digits_value (10 * acc + (c - 48)) (d # cs))
      else None)"

definition py_int :: "pystr \<Rightarrow> int option" where
  "py_int s =
     (let t = rev (dropWhile is_space (rev (dropWhile is_space s)))
      in case t of
           [] \<Rightarrow> None
         | c # cs \<Rightarrow>
             if c = 45 then (if cs = [] then None else map_option (\<lambda>n. - int n) (digits_value 0 cs))
             else if c = 43 then (if cs = [] then None else map_option int (digits_value 0 cs))
             else map_option int (digits_value 0 (c # cs)))"

subsection \<open>UTF-8\<close>

text \<open>
  \<open>message.encode('utf-8')\<close>: one to four octets per code point. A surrogate
  (U+D800 to U+DFFF) has no encoding: Python raises \<open>UnicodeEncodeError\<close>, here
  \<open>None\<close>.
\<close>

definition utf8_char :: "nat \<Rightarrow> bytes option" where
  "utf8_char c =
     (if c < 128 then Some [c]
      else if c < 2048 then Some [192 + c div 64, 128 + c mod 64]
      else if c < 65536 then
        (if 55296 \<le> c \<and> c \<le> 57343 then None
         else Some [224 + c div 4096, 128 + (c div 64) mod 64, 128 + c mod 64])
      else if c < 1114112 then
        Some [240 + c div 262144, 128 + (c div 4096) mod 64, 128 + (c div 64) mod 64,
              128 + c mod 64]
      else None)"

fun encode :: "pystr \<Rightarrow> bytes option" where
  "encode [] = Some []"
| "encode (c # cs) =
     (case utf8_char c of
        None \<Rightarrow> None
      | Some bs \<Rightarrow> (case encode cs of None \<Rightarrow> None | Some rest \<Rightarrow> Some (bs @ rest)))"

text \<open>
  \<open>buf.decode('utf-8')\<close> and \<open>buf.decode('utf-8', 'ignore')\<close>. \<open>utf8_next\<close> looks at the
  front of the input: it gives the code point of a well-formed sequence and its length,
  or \<open>None\<close> and the number of octets that the error covers (the start byte alone, or
  the part of a sequence that was well-formed before it broke off). The strict decoder
  raises \<open>UnicodeDecodeError\<close> there (\<open>None\<close>), the lenient one drops those octets.
\<close>

definition is_cont :: "nat \<Rightarrow> bool" where
  "is_cont b = (128 \<le> b \<and> b \<le> 191)"

fun utf8_next :: "bytes \<Rightarrow> nat option \<times> nat" where
  "utf8_next [] = (None, 1)"
| "utf8_next (b0 # rest) =
     (if b0 < 128 then (Some b0, 1)
      else if b0 < 194 then (None, 1)
      else if b0 < 224 then
        (case rest of
           [] \<Rightarrow> (None, 1)
         | b1 # _ \<Rightarrow>
             if is_cont b1 then (Some ((b0 - 192) * 64 + (b1 - 128)), 2) else (None, 1))
      else if b0 < 240 then
        (case rest of
           [] \<Rightarrow> (None, 1)
         | b1 # rest1 \<Rightarrow>
             if \<not> is_cont b1 \<or> (b0 = 224 \<and> b1 < 160) \<or> (b0 = 237 \<and> 160 \<le> b1) then (None, 1)
             else (case rest1 of
                     [] \<Rightarrow> (None, 2)
                   | b2 # _ \<Rightarrow>
                       if is_cont b2
                       then (Some ((b0 - 224) * 4096 + (b1 - 128) * 64 + (b2 - 128)), 3)
                       else (None, 2)))
      else if b0 < 245 then
        (case rest of
           [] \<Rightarrow> (None, 1)
         | b1 # rest1 \<Rightarrow>
             if \<not> is_cont b1 \<or> (b0 = 240 \<and> b1 < 144) \<or> (b0 = 244 \<and> 144 \<le> b1) then (None, 1)
             else (case rest1 of
                     [] \<Rightarrow> (None, 2)
                   | b2 # rest2 \<Rightarrow>
                       if \<not> is_cont b2 then (None, 2)
                       else (case rest2 of
                               [] \<Rightarrow> (None, 3)
                             | b3 # _ \<Rightarrow>
                                 if is_cont b3
                                 then (Some ((b0 - 240) * 262144 + (b1 - 128) * 4096
                                             + (b2 - 128) * 64 + (b3 - 128)), 4)
                                 else (None, 3))))
      else (None, 1))"

function decode :: "bool \<Rightarrow> bytes \<Rightarrow> pystr option" where
  "decode ignore [] = Some []"
| "decode ignore (b # bs) =
     (case utf8_next (b # bs) of
        (Some c, k) \<Rightarrow> map_option (Cons c) (decode ignore (drop (k - 1) bs))
      | (None, k) \<Rightarrow> if ignore then decode ignore (drop (k - 1) bs) else None)"
  by pat_completeness auto
termination
  by (relation "measure (\<lambda>(ignore, bs). length bs)") auto

subsection \<open>The framer: the start of \<open>_sendRequest\<close>\<close>

datatype exn =
    TransportLayerException pystr
  | ValueError
  | AttributeError
  | TypeError
  | UnicodeDecodeError
  | OtherException pystr

text \<open>
  The three local functions of \<open>_sendRequest\<close>. \<open>message.index(DELIM)\<close> raises
  \<open>ValueError\<close> when the message has no delimiter.
\<close>

definition get_end_of_header :: "pystr \<Rightarrow> exn + nat" where
  "get_end_of_header message =
     (case str_find DELIM message of None \<Rightarrow> Inl ValueError | Some i \<Rightarrow> Inr i)"

definition get_start_of_body :: "pystr \<Rightarrow> exn + nat" where
  "get_start_of_body message =
     (case get_end_of_header message of Inl e \<Rightarrow> Inl e | Inr i \<Rightarrow> Inr (i + length DELIM))"

definition append_to_header :: "pystr \<Rightarrow> pystr \<Rightarrow> exn + pystr" where
  "append_to_header message content =
     (case get_end_of_header message of
        Inl e \<Rightarrow> Inl e
      | Inr i \<Rightarrow>
          (case get_start_of_body message of
             Inl e \<Rightarrow> Inl e
           | Inr j \<Rightarrow> Inr ((take i message @ CRLF @ content @ DELIM) @ drop j message)))"

text \<open>
  Lines 326 to 330: the message as it is handed to \<open>sendall\<close>. \<open>contentlen\<close> is
  \<open>len\<close> of a \<open>str\<close>, the number of code points of the body.
\<close>

definition add_content_length :: "pystr \<Rightarrow> exn + pystr" where
  "add_content_length message =
     (if \<not> contains (lit ''Content-Length: '') message then
        (case get_start_of_body message of
           Inl e \<Rightarrow> Inl e
         | Inr j \<Rightarrow>
             (let contentlen = length (drop j message)
              in append_to_header message (lit ''Content-Length: '' @ dec contentlen)))
      else Inr message)"

definition add_user_agent :: "bool \<Rightarrow> pystr \<Rightarrow> pystr \<Rightarrow> exn + pystr" where
  "add_user_agent include_user_agent version message =
     (if include_user_agent
      then append_to_header message (lit ''User-Agent: restler/'' @ version)
      else Inr message)"

definition frame :: "bool \<Rightarrow> pystr \<Rightarrow> pystr \<Rightarrow> exn + pystr" where
  "frame include_user_agent version message =
     (case add_content_length message of
        Inl e \<Rightarrow> Inl e
      | Inr m \<Rightarrow> add_user_agent include_user_agent version m)"

subsection \<open>Settings, the session and the environment\<close>

text \<open>
  What the source reads from \<open>Settings()\<close> and from \<open>connection_settings\<close>.
  \<open>request_throttle_ms\<close> is \<open>None\<close> when no throttle is set.
\<close>

record settings =
  request_throttle_ms :: "int option"
  include_user_agent :: bool
  version :: pystr
  ignore_decoding_failures :: bool
  use_test_socket :: bool

text \<open>
  A reply of the environment to one socket operation: it returns (\<open>recv\<close> returns the
  octets read, the other operations return nothing of interest), or it raises an
  exception whose \<open>str\<close> is the text given.
\<close>

datatype reply = Reply bytes | Throw pystr

datatype event =
    Enter bool
  | Close
  | Setup
  | Sendall bytes
  | TimedRecv int
  | Recv
  | Acquire
  | Sleep real
  | Release

text \<open>
  Class attributes. The file has four classes; the two class bodies that set private
  attributes are \<open>BaseSocket\<close> (lines 56 and 57) and \<open>HttpRawSock\<close> (lines 150 and 151).
  Python mangles an identifier \<open>__x\<close> that occurs in the body of class \<open>C\<close> to
  \<open>_C__x\<close>, wherever it occurs there, also after a dot.
\<close>

datatype cls = HttpSock | BaseSocket | Http2Sock | HttpRawSock

datatype pyval = Semaphore nat | Float real | Function

fun class_name :: "cls \<Rightarrow> string" where
  "class_name HttpSock = ''HttpSock''"
| "class_name BaseSocket = ''BaseSocket''"
| "class_name Http2Sock = ''Http2Sock''"
| "class_name HttpRawSock = ''HttpRawSock''"

definition mangle :: "cls \<Rightarrow> string \<Rightarrow> string" where
  "mangle c name =
     (if take 2 name = ''__'' \<and> \<not> suffix ''__'' name
      then ''_'' @ dropWhile (\<lambda>ch. ch = CHR ''_'') (class_name c) @ name
      else name)"

text \<open>The names each class body binds, as written there; \<open>t0\<close> is the time of import.\<close>

fun class_body :: "real \<Rightarrow> cls \<Rightarrow> (string \<times> pyval) list" where
  "class_body t0 HttpSock = [(''__init__'', Function), (''sendRecv'', Function)]"
| "class_body t0 BaseSocket =
     [(''__last_request_sent_time'', Float t0), (''__req_sem'', Semaphore 1),
      (''__init__'', Function), (''__del__'', Function), (''sendRecv'', Function),
      (''_get_method_from_message'', Function), (''_get_payload_from_message'', Function),
      (''_get_uri_segment_from_message'', Function)]"
| "class_body t0 Http2Sock =
     [(''__init__'', Function), (''sendRecv'', Function), (''__del__'', Function)]"
| "class_body t0 HttpRawSock =
     [(''__last_request_sent_time'', Float t0), (''__request_sem'', Semaphore 1),
      (''__init__'', Function), (''__del__'', Function),
      (''_get_method_from_message'', Function), (''sendRecv'', Function),
      (''_contains_connection_closed'', Function), (''_sendRequest'', Function),
      (''_begin_throttle_request'', Function), (''_end_throttle_request'', Function),
      (''_recvResponse'', Function), (''_closeSocket'', Function)]"

definition class_dicts :: "real \<Rightarrow> cls \<Rightarrow> string \<Rightarrow> pyval option" where
  "class_dicts t0 c = map_of (map (\<lambda>(name, v). (mangle c name, v)) (class_body t0 c))"

text \<open>
  The state: the attributes of the session object (\<open>self\<close>), the class attributes, the
  clock, the script of replies still to come and the trace of what was done to the
  socket. \<open>sock\<close> says whether \<open>self._sock\<close> is an object (and not \<open>None\<close>).
\<close>

record world =
  request_throttle_sec :: "real option"
  ignore_failures :: bool
  connected :: bool
  sock :: bool
  classes :: "cls \<Rightarrow> string \<Rightarrow> pyval option"
  now :: real
  script :: "reply list"
  trace :: "event list"

datatype 'a result = Ok 'a | Raise exn | Blocked

definition log :: "event \<Rightarrow> world \<Rightarrow> world" where
  "log ev w = w\<lparr>trace := trace w @ [ev]\<rparr>"

text \<open>One operation on the socket: it is recorded and takes the next reply.\<close>

definition sock_op :: "event \<Rightarrow> world \<Rightarrow> reply option \<times> world" where
  "sock_op ev w =
     (case script w of
        [] \<Rightarrow> (None, log ev w)
      | r # rs \<Rightarrow> (Some r, (log ev w)\<lparr>script := rs\<rparr>))"

text \<open>
  The second \<open>__init__\<close> of the class (lines 196 to 213) is the one Python keeps: it
  replaces the first (lines 153 to 193) in the class body.
\<close>

definition HttpRawSock_init :: "settings \<Rightarrow> real \<Rightarrow> reply list \<Rightarrow> world" where
  "HttpRawSock_init st t0 env =
     \<lparr>request_throttle_sec =
        (case request_throttle_ms st of
           None \<Rightarrow> None
         | Some ms \<Rightarrow> if ms = 0 then None else Some (real_of_int ms / 1000)),
      ignore_failures = ignore_decoding_failures st,
      connected = False,
      sock = False,
      classes = class_dicts t0,
      now = t0,
      script = env,
      trace = []\<rparr>"

text \<open>
  \<open>self._sock\<close> is \<open>None\<close> until a connection is set up. A method call on \<open>None\<close>
  raises \<open>AttributeError\<close> with this text, which the \<open>try\<close> around every socket
  operation wraps like any other failure.
\<close>

definition no_attribute :: "string \<Rightarrow> pystr" where
  "no_attribute name =
     [39] @ lit ''NoneType'' @ [39] @ lit '' object has no attribute '' @ [39] @ lit name @ [39]"

text \<open>
  Modelled from the spec: \<open>set_up_connection\<close> is called at line 247 and defined
  nowhere in the file. By the spec (4.1, 7) connection set-up opens the TCP or TLS
  connection and a failure is surfaced as a wrapped error; the wrapping is taken from
  the connection code of the replaced \<open>__init__\<close> (line 193). On success the session
  owns the new socket.
\<close>

definition set_up_connection :: "world \<Rightarrow> unit result \<times> world" where
  "set_up_connection w =
     (case sock_op Setup w of
        (None, w') \<Rightarrow> (Blocked, w')
      | (Some (Throw e), w') \<Rightarrow>
          (Raise (TransportLayerException (lit ''Exception Creating Socket: '' @ e)), w')
      | (Some (Reply _), w') \<Rightarrow> (Ok (), w'\<lparr>sock := True\<rparr>))"

text \<open>\<open>_closeSocket\<close> (lines 468 to 478). \<open>self._sock\<close> keeps the closed object.\<close>

definition closeSocket :: "world \<Rightarrow> unit result \<times> world" where
  "closeSocket w =
     (if \<not> sock w then
        (Raise (TransportLayerException (lit ''Exception: '' @ no_attribute ''close'')), w)
      else case sock_op Close w of
        (None, w') \<Rightarrow> (Blocked, w')
      | (Some (Throw e), w') \<Rightarrow> (Raise (TransportLayerException (lit ''Exception: '' @ e)), w')
      | (Some (Reply _), w') \<Rightarrow> (Ok (), w'))"

subsection \<open>The throttle\<close>

definition throttled :: "world \<Rightarrow> bool" where
  "throttled w = (case request_throttle_sec w of None \<Rightarrow> False | Some x \<Rightarrow> x \<noteq> 0)"

text \<open>
  \<open>_begin_throttle_request\<close> (lines 343 to 356) and \<open>_end_throttle_request\<close> (lines 358
  to 370). Both are methods of \<open>HttpRawSock\<close> and name the semaphore and the timestamp as
  \<open>HttpSock.__request_sem\<close> and \<open>HttpSock.__last_request_sent_time\<close>: attributes of
  class \<open>HttpSock\<close> (line 28) under the names mangled for \<open>HttpRawSock\<close>. Reading an
  attribute a class does not have raises \<open>AttributeError\<close>; assigning to it creates it.
  \<open>acquire\<close> on a semaphore at zero does not return.
\<close>

definition begin_throttle_request :: "world \<Rightarrow> unit result \<times> world" where
  "begin_throttle_request w =
     (if throttled w then
        (case classes w HttpSock (mangle HttpRawSock ''__request_sem'') of
           Some (Semaphore n) \<Rightarrow>
             (if n = 0 then (Blocked, w)
              else
                (let w1 = log Acquire
                       (w\<lparr>classes := (classes w)(HttpSock :=
                            (classes w HttpSock)(mangle HttpRawSock ''__request_sem''
                               \<mapsto> Semaphore (n - 1)))\<rparr>)
                 in case classes w1 HttpSock (mangle HttpRawSock ''__last_request_sent_time'') of
                      Some (Float last_sent) \<Rightarrow>
                        (let elapsed = now w1 - last_sent;
                             throttle_time_remaining = the (request_throttle_sec w1) - elapsed
                         in if throttle_time_remaining > 0
                            then (Ok (), log (Sleep throttle_time_remaining)
                                           (w1\<lparr>now := now w1 + throttle_time_remaining\<rparr>))
                            else (Ok (), w1))
                    | Some _ \<Rightarrow> (Raise TypeError, w1)
                    | None \<Rightarrow> (Raise AttributeError, w1)))
         | Some _ \<Rightarrow> (Raise AttributeError, w)
         | None \<Rightarrow> (Raise AttributeError, w))
      else (Ok (), w))"

definition end_throttle_request :: "world \<Rightarrow> unit result \<times> world" where
  "end_throttle_request w =
     (if throttled w then
        (let w1 = w\<lparr>classes := (classes w)(HttpSock :=
                     (classes w HttpSock)(mangle HttpRawSock ''__last_request_sent_time''
                        \<mapsto> Float (now w)))\<rparr>
         in case classes w1 HttpSock (mangle HttpRawSock ''__request_sem'') of
              Some (Semaphore n) \<Rightarrow>
                (Ok (), log Release
                   (w1\<lparr>classes := (classes w1)(HttpSock :=
                        (classes w1 HttpSock)(mangle HttpRawSock ''__request_sem''
                           \<mapsto> Semaphore (n + 1)))\<rparr>))
            | Some _ \<Rightarrow> (Raise AttributeError, w1)
            | None \<Rightarrow> (Raise AttributeError, w1))
      else (Ok (), w))"

subsection \<open>\<open>_sendRequest\<close>\<close>

text \<open>
  The write (lines 335 to 339): the look-up of \<open>sendall\<close>, \<open>message.encode\<close> and the
  call stand in one \<open>try\<close>, and whatever they raise is wrapped. The text of a
  \<open>UnicodeEncodeError\<close> is shortened to its last words.
\<close>

definition write_message :: "pystr \<Rightarrow> world \<Rightarrow> unit result \<times> world" where
  "write_message message w =
     (if \<not> sock w then
        (Raise (TransportLayerException
           (lit ''Exception Sending Data: '' @ no_attribute ''sendall'')), w)
      else case encode message of
        None \<Rightarrow>
          (Raise (TransportLayerException
             (lit ''Exception Sending Data: surrogates not allowed'')), w)
      | Some bs \<Rightarrow>
          (case sock_op (Sendall bs) w of
             (None, w') \<Rightarrow> (Blocked, w')
           | (Some (Throw e), w') \<Rightarrow>
               (Raise (TransportLayerException (lit ''Exception Sending Data: '' @ e)), w')
           | (Some (Reply _), w') \<Rightarrow> (Ok (), w')))"

text \<open>
  \<open>try ... finally\<close> (lines 335 to 341): the \<open>finally\<close> block runs however the write
  ended, unless the write never returned; an exception of the \<open>finally\<close> block
  replaces the outcome of the write.
\<close>

definition sendRequest :: "settings \<Rightarrow> pystr \<Rightarrow> world \<Rightarrow> unit result \<times> world" where
  "sendRequest st message w =
     (case frame (include_user_agent st) (version st) message of
        Inl e \<Rightarrow> (Raise e, w)
      | Inr m \<Rightarrow>
          (case begin_throttle_request w of
             (Ok _, w1) \<Rightarrow>
               (case write_message m w1 of
                  (Blocked, w2) \<Rightarrow> (Blocked, w2)
                | (r, w2) \<Rightarrow>
                    (case end_throttle_request w2 of
                       (Ok _, w3) \<Rightarrow> (r, w3)
                     | (r', w3) \<Rightarrow> (r', w3)))
           | (r, w1) \<Rightarrow> (r, w1)))"

subsection \<open>\<open>_recvResponse\<close>\<close>

text \<open>
  \<open>decode_buf\<close> (lines 385 to 394): strict first; on failure the lenient decoding when
  \<open>ignore_decoding_failures\<close> is set, else the \<open>UnicodeDecodeError\<close> is raised again
  (\<open>None\<close>).
\<close>

definition decode_buf :: "world \<Rightarrow> bytes \<Rightarrow> pystr option" where
  "decode_buf w buf =
     (case decode False buf of
        Some s \<Rightarrow> Some s
      | None \<Rightarrow> if ignore_failures w then decode True buf else None)"

text \<open>
  One read. In the first loop it is \<open>settimeout\<close> followed by \<open>recv\<close> (event
  \<open>TimedRecv\<close>), in the other two \<open>recv\<close> alone; both stand in a \<open>try\<close> whose handler
  wraps any exception the same way, so the pair takes one reply.
\<close>

definition recv_buf :: "event \<Rightarrow> world \<Rightarrow> bytes result \<times> world" where
  "recv_buf ev w =
     (if \<not> sock w then
        (Raise (TransportLayerException
           (lit ''Exception: ''
            @ no_attribute (case ev of TimedRecv _ \<Rightarrow> ''settimeout'' | _ \<Rightarrow> ''recv''))), w)
      else case sock_op ev w of
        (None, w') \<Rightarrow> (Blocked, w')
      | (Some (Throw e), w') \<Rightarrow> (Raise (TransportLayerException (lit ''Exception: '' @ e)), w')
      | (Some (Reply buf), w') \<Rightarrow> (Ok buf, w'))"

text \<open>A loop either makes the function return (\<open>Return\<close>) or is left (\<open>Next\<close>).\<close>

datatype 'a flow = Return pystr | Next 'a

text \<open>Lines 397 to 409: read until the delimiter is in the buffer.\<close>

function recv_header :: "int \<Rightarrow> pystr \<Rightarrow> nat \<Rightarrow> world \<Rightarrow> (pystr \<times> nat) flow result \<times> world" where
  "recv_header t data bytes_received w =
     (if contains DELIM data then (Ok (Next (data, bytes_received)), w)
      else case recv_buf (TimedRecv t) w of
        (Ok buf, w') \<Rightarrow>
          (if length buf = 0 then (Ok (Return data), w')
           else case decode_buf w' buf of
                  None \<Rightarrow> (Raise UnicodeDecodeError, w')
                | Some s \<Rightarrow> recv_header t (data @ s) (bytes_received + length buf) w')
      | (Raise e, w') \<Rightarrow> (Raise e, w')
      | (Blocked, w') \<Rightarrow> (Blocked, w'))"
  by pat_completeness auto
termination
  by (relation "measure (\<lambda>(t, data, n, w). length (script w))")
     (auto simp: recv_buf_def sock_op_def log_def split: if_splits list.splits reply.splits)

declare recv_header.simps [simp del]

text \<open>
  Lines 412 to 414: the test for chunked transfer encoding, two spellings of the header
  line looked for anywhere in the buffer.
\<close>

definition declares_chunked :: "pystr \<Rightarrow> bool" where
  "declares_chunked data =
     (contains (lit ''Transfer-Encoding: chunked'' @ CRLF) data
      \<or> contains (lit ''transfer-encoding: chunked'' @ CRLF) data)"

text \<open>
  Lines 421 to 434: the loop of the chunked case. (\<open>bytes_received\<close> is still counted
  there, and never read again: every exit of this loop returns.)
\<close>

function recv_chunks :: "pystr \<Rightarrow> world \<Rightarrow> pystr result \<times> world" where
  "recv_chunks data w =
     (case recv_buf Recv w of
        (Ok buf, w') \<Rightarrow>
          (if length buf = 0 then (Ok data, w')
           else case decode_buf w' buf of
                  None \<Rightarrow> (Raise UnicodeDecodeError, w')
                | Some s \<Rightarrow>
                    if endswith (data @ s) DELIM then (Ok (data @ s), w')
                    else recv_chunks (data @ s) w')
      | (Raise e, w') \<Rightarrow> (Raise e, w')
      | (Blocked, w') \<Rightarrow> (Blocked, w'))"
  by pat_completeness auto
termination
  by (relation "measure (\<lambda>(data, w). length (script w))")
     (auto simp: recv_buf_def sock_op_def log_def split: if_splits list.splits reply.splits)

declare recv_chunks.simps [simp del]

text \<open>Lines 438 to 448: the length of the body that is still expected.\<close>

definition content_len :: "pystr \<Rightarrow> pystr \<Rightarrow> int" where
  "content_len method_name data =
     (if take 12 data = lit ''HTTP/1.1 204'' \<or> take 12 data = lit ''HTTP/1.1 304'' then 0
      else if py_upper method_name = lit ''HEAD'' then 0
      else
        (case py_split (lit ''content-length: '') (py_lower data) of
           _ # field # _ \<Rightarrow>
             (case py_split CRLF field of
                number # _ \<Rightarrow> (case py_int number of Some n \<Rightarrow> n | None \<Rightarrow> 2 ^ 20)
              | [] \<Rightarrow> 2 ^ 20)
         | _ \<Rightarrow> 2 ^ 20))"

text \<open>Lines 453 to 466: read until \<open>bytes_remain\<close> is used up.\<close>

function recv_rest :: "int \<Rightarrow> pystr \<Rightarrow> world \<Rightarrow> pystr result \<times> world" where
  "recv_rest bytes_remain data w =
     (if bytes_remain > 0 then
        (case recv_buf Recv w of
           (Ok buf, w') \<Rightarrow>
             (if length buf = 0 then (Ok data, w')
              else case decode_buf w' buf of
                     None \<Rightarrow> (Raise UnicodeDecodeError, w')
                   | Some s \<Rightarrow> recv_rest (bytes_remain - int (length buf)) (data @ s) w')
         | (Raise e, w') \<Rightarrow> (Raise e, w')
         | (Blocked, w') \<Rightarrow> (Blocked, w'))
      else (Ok data, w))"
  by pat_completeness auto
termination
  by (relation "measure (\<lambda>(n, data, w). length (script w))")
     (auto simp: recv_buf_def sock_op_def log_def split: if_splits list.splits reply.splits)

declare recv_rest.simps [simp del]

definition recvResponse :: "int \<Rightarrow> pystr \<Rightarrow> world \<Rightarrow> pystr result \<times> world" where
  "recvResponse req_timeout_sec method_name w =
     (case recv_header req_timeout_sec [] 0 w of
        (Ok (Return data), w1) \<Rightarrow> (Ok data, w1)
      | (Ok (Next (data, bytes_received)), w1) \<Rightarrow>
          (if declares_chunked data \<and> endswith data DELIM then (Ok data, w1)
           else if declares_chunked data then recv_chunks data w1
           else
             (case str_find DELIM data of
                None \<Rightarrow> (Raise ValueError, w1)
              | Some i \<Rightarrow>
                  (let header_len = i + length DELIM;
                       bytes_remain =
                         content_len method_name data - int bytes_received + int header_len
                   in recv_rest bytes_remain data w1)))
      | (Raise e, w1) \<Rightarrow> (Raise e, w1)
      | (Blocked, w1) \<Rightarrow> (Blocked, w1))"

subsection \<open>\<open>sendRecv\<close>\<close>

text \<open>
  Modelled from the spec: \<open>HttpResponse\<close>, \<open>TIMEOUT_CODE\<close> and
  \<open>CONNECTION_CLOSED_CODE\<close> come from \<open>engine.transport_layer.response\<close>, which is not
  in the file. By the spec (3) a response holds the raw text and a status code that is
  either parsed from that text or one of the two synthetic codes; how the status is
  parsed is outside the transport.
\<close>

datatype status = Parsed pystr | TIMEOUT_CODE | CONNECTION_CLOSED_CODE

record response =
  to_str :: pystr
  status_code :: status

definition HttpResponse :: "pystr \<Rightarrow> response" where
  "HttpResponse s = \<lparr>to_str = s, status_code = Parsed s\<rparr>"

text \<open>
  Modelled from the spec: \<open>TransportLayerException\<close> comes from \<open>engine.errors\<close>, which
  is not in the file; \<open>str(error)\<close> is taken to be the text it was raised with (the
  raw error text of spec 4.5).
\<close>

definition exc_str :: "pystr \<Rightarrow> pystr" where
  "exc_str msg = msg"

text \<open>The two quote characters that line 266 strips from the ends of the text.\<close>

definition quotes :: pystr where
  "quotes = [34, 39]"

text \<open>\<open>_get_method_from_message\<close>: with no space in the message, \<open>message[0:-1]\<close>.\<close>

definition get_method_from_message :: "pystr \<Rightarrow> pystr" where
  "get_method_from_message message =
     (case str_find [32] message of None \<Rightarrow> butlast message | Some i \<Rightarrow> take i message)"

definition connection_closed_strings :: "pystr list" where
  "connection_closed_strings =
     [lit ''[WinError 10054]'', lit ''[WinError 10053]'', lit ''[Errno 104]'']"

definition contains_connection_closed :: "pystr \<Rightarrow> bool" where
  "contains_connection_closed error_str =
     list_ex (\<lambda>x. contains x error_str) connection_closed_strings"

text \<open>Lines 243 to 248.\<close>

definition connect_if_needed :: "bool \<Rightarrow> world \<Rightarrow> unit result \<times> world" where
  "connect_if_needed reconnect w =
     (if reconnect \<or> \<not> connected w then
        (case (if reconnect \<and> sock w then closeSocket w else (Ok (), w)) of
           (Ok _, w1) \<Rightarrow>
             (case set_up_connection w1 of
                (Ok _, w2) \<Rightarrow> (Ok (), w2\<lparr>connected := True\<rparr>)
              | (r, w2) \<Rightarrow> (r, w2))
         | (r, w1) \<Rightarrow> (r, w1))
      else (Ok (), w))"

text \<open>
  What an attempt hands to the rest of \<open>sendRecv\<close>: the text read by \<open>_recvResponse\<close>,
  or the response object of the test socket. \<open>TestSocket\<close> is imported from
  \<open>test_servers\<close>; its \<open>recv()\<close> is taken to give the response made of the scripted
  reply, and what it raises is not wrapped.
\<close>

datatype attempted = Received pystr | Answered response

definition test_socket_recv :: "world \<Rightarrow> attempted result \<times> world" where
  "test_socket_recv w =
     (case sock_op Recv w of
        (None, w') \<Rightarrow> (Blocked, w')
      | (Some (Throw e), w') \<Rightarrow> (Raise (OtherException e), w')
      | (Some (Reply buf), w') \<Rightarrow>
          (Ok (Answered (HttpResponse (case decode True buf of None \<Rightarrow> [] | Some s \<Rightarrow> s))), w'))"

text \<open>Lines 243 to 253 and 261: one attempt, up to the response it reads.\<close>

definition attempt :: "settings \<Rightarrow> pystr \<Rightarrow> int \<Rightarrow> bool \<Rightarrow> world \<Rightarrow> attempted result \<times> world" where
  "attempt st message req_timeout_sec reconnect w =
     (case connect_if_needed reconnect w of
        (Ok _, w1) \<Rightarrow>
          (case sendRequest st message w1 of
             (Ok _, w2) \<Rightarrow>
               (if \<not> use_test_socket st then
                  (case recvResponse req_timeout_sec (get_method_from_message message) w2 of
                     (Ok received_response, w3) \<Rightarrow> (Ok (Received received_response), w3)
                   | (Raise e, w3) \<Rightarrow> (Raise e, w3)
                   | (Blocked, w3) \<Rightarrow> (Blocked, w3))
                else test_socket_recv w2)
           | (Raise e, w2) \<Rightarrow> (Raise e, w2)
           | (Blocked, w2) \<Rightarrow> (Blocked, w2))
      | (Raise e, w1) \<Rightarrow> (Raise e, w1)
      | (Blocked, w1) \<Rightarrow> (Blocked, w1))"

text \<open>
  \<open>sendRecv\<close> (lines 227 to 281). \<open>tried\<close> is the outcome of the \<open>try\<close> block, which
  holds the recursive call of line 257; the handler of
  \<open>TransportLayerException\<close> sees whatever the block raised. Every entry is recorded
  in the trace with its \<open>reconnect\<close> flag.
\<close>

function sendRecv ::
  "settings \<Rightarrow> pystr \<Rightarrow> int \<Rightarrow> bool \<Rightarrow> world \<Rightarrow> (bool \<times> response) result \<times> world" where
  "sendRecv st message req_timeout_sec reconnect w =
     (let tried =
            (case attempt st message req_timeout_sec reconnect (log (Enter reconnect) w) of
               (Ok (Received received_response), w1) \<Rightarrow>
                 if received_response = [] \<and> \<not> reconnect
                 then sendRecv st message req_timeout_sec True w1
                 else (Ok (True, HttpResponse received_response), w1)
             | (Ok (Answered response), w1) \<Rightarrow> (Ok (True, response), w1)
             | (Raise e, w1) \<Rightarrow> (Raise e, w1)
             | (Blocked, w1) \<Rightarrow> (Blocked, w1))
      in case tried of
           (Raise (TransportLayerException error), w2) \<Rightarrow>
             (let response = HttpResponse (py_strip quotes (exc_str error))
              in if contains (lit ''timed out'') (exc_str error)
                 then (Ok (False, response\<lparr>status_code := TIMEOUT_CODE\<rparr>), w2)
                 else if contains_connection_closed (exc_str error)
                 then (if \<not> reconnect then sendRecv st message req_timeout_sec True w2
                       else (Ok (False, response\<lparr>status_code := CONNECTION_CLOSED_CODE\<rparr>), w2))
                 else (if \<not> reconnect then sendRecv st message req_timeout_sec True w2
                       else (Ok (False, response), w2)))
         | other \<Rightarrow> other)"
  by pat_completeness auto
termination
  by (relation "measure (\<lambda>(st, message, t, reconnect, w). if reconnect then 0 else 1)") auto

declare sendRecv.simps [simp del]

subsection \<open>Notions used in the statements\<close>

text \<open>
  The response of a failed call (lines 266 to 281): the error text without surrounding
  quotes, with a synthetic status code when the error is classified.
\<close>

definition failure :: "pystr \<Rightarrow> status \<Rightarrow> response" where
  "failure error code = (HttpResponse (py_strip quotes (exc_str error)))\<lparr>status_code := code\<rparr>"


text \<open>
  \<open>steps w w'\<close>: \<open>w'\<close> is reached from \<open>w\<close> by operations on the socket only. The trace
  grows by events that are not entries of \<open>sendRecv\<close>, the script loses a front part,
  the settings copied into the session stay, and a socket once owned stays owned.
\<close>

definition quiet :: "event list \<Rightarrow> bool" where
  "quiet evs = list_all (\<lambda>e. case e of Enter _ \<Rightarrow> False | _ \<Rightarrow> True) evs"

definition steps :: "world \<Rightarrow> world \<Rightarrow> bool" where
  "steps w w' =
     ((\<exists>evs. trace w' = trace w @ evs \<and> quiet evs)
      \<and> suffix (script w') (script w)
      \<and> request_throttle_sec w' = request_throttle_sec w
      \<and> ignore_failures w' = ignore_failures w
      \<and> (sock w \<longrightarrow> sock w'))"


text \<open>
  The test for chunked transfer encoding as the specification words it, matched without
  regard to case; to be compared with \<open>declares_chunked\<close>, the test of the source.
\<close>

definition declares_chunked_ci :: "pystr \<Rightarrow> bool" where
  "declares_chunked_ci data =
     contains (lit ''transfer-encoding: chunked'' @ CRLF) (py_lower data)"

text \<open>
  \<open>decodable w\<close>: every buffer the peer is still to send can be decoded under the policy
  of the session (always so when decoding failures are ignored).
\<close>

definition decodable :: "world \<Rightarrow> bool" where
  "decodable w =
     list_all (\<lambda>r. case r of Reply buf \<Rightarrow> decode_buf w buf \<noteq> None | Throw _ \<Rightarrow> True) (script w)"

text \<open>
  What an operation may do when only the network fails: return, raise a
  \<open>TransportLayerException\<close>, or wait on a socket whose script is used up.
\<close>

definition network_outcome :: "'a result \<Rightarrow> world \<Rightarrow> bool" where
  "network_outcome r w =
     (case r of
        Ok _ \<Rightarrow> True
      | Raise e \<Rightarrow> (case e of TransportLayerException _ \<Rightarrow> True | _ \<Rightarrow> False)
      | Blocked \<Rightarrow> script w = [])"

text \<open>The status of a response is parsed from its own text or is one of the two sentinels.\<close>

definition sentinel_or_parsed :: "response \<Rightarrow> bool" where
  "sentinel_or_parsed resp =
     (status_code resp = Parsed (to_str resp) \<or> status_code resp = TIMEOUT_CODE
      \<or> status_code resp = CONNECTION_CLOSED_CODE)"


text \<open>
  \<open>eofs k w\<close>: the script ends with \<open>k\<close> replies of nothing, as when the peer has
  closed the connection and every further operation returns at once.
\<close>

definition eofs :: "nat \<Rightarrow> world \<Rightarrow> bool" where
  "eofs k w = (\<exists>pre. script w = pre @ replicate k (Reply []))"

subsection \<open>Example sessions\<close>

definition plain_settings :: settings where
  "plain_settings =
     \<lparr>request_throttle_ms = None, include_user_agent = False, version = lit ''9.0'',
      ignore_decoding_failures = False, use_test_socket = False\<rparr>"

definition throttle_settings :: settings where
  "throttle_settings = plain_settings\<lparr>request_throttle_ms := Some 100\<rparr>"

definition get_request :: pystr where
  "get_request = lit ''GET /x HTTP/1.1'' @ CRLF @ lit ''Host: h'' @ DELIM"

definition post_e_acute :: pystr where
  "post_e_acute = lit ''POST /x HTTP/1.1'' @ DELIM @ [233]"

definition no_content :: bytes where
  "no_content = lit ''HTTP/1.1 204 No Content'' @ DELIM"

definition fresh :: "reply list \<Rightarrow> world" where
  "fresh env = HttpRawSock_init plain_settings 0 env"

definition connected_session :: "reply list \<Rightarrow> world" where
  "connected_session env = (fresh env)\<lparr>connected := True, sock := True\<rparr>"


definition chunked_upper :: bytes where
  "chunked_upper =
     lit ''HTTP/1.1 200 OK'' @ CRLF @ lit ''TRANSFER-ENCODING: chunked'' @ DELIM
     @ lit ''0'' @ DELIM"

definition chunked_single :: bytes where
  "chunked_single =
     lit ''HTTP/1.1 200 OK'' @ CRLF @ lit ''transfer-encoding: chunked'' @ DELIM
     @ lit ''0'' @ DELIM"

definition chunked_head :: bytes where
  "chunked_head =
     lit ''HTTP/1.1 200 OK'' @ CRLF @ lit ''Transfer-Encoding: chunked'' @ DELIM
     @ lit ''2'' @ CRLF @ lit ''hi'' @ CRLF"

definition chunked_mid :: bytes where
  "chunked_mid = lit ''3'' @ CRLF @ lit ''abc'' @ CRLF"

definition chunked_end :: bytes where
  "chunked_end = lit ''0'' @ DELIM"




text \<open>A header with a character of two octets (U+00E9), and a body of five.\<close>

definition accented_head :: bytes where
  "accented_head =
     lit ''HTTP/1.1 200 OK'' @ CRLF @ lit ''X-Name: '' @ [195, 169] @ CRLF
     @ lit ''Content-Length: 5'' @ DELIM"

section \<open>Properties of the operations\<close>

subsection \<open>Operations only touch the socket\<close>

text \<open>
  Every operation of the model is a step in the sense of \<open>steps\<close>; the loops by computation induction.
\<close>

lemma steps_refl: "steps w w"
  by (simp add: steps_def quiet_def)

lemma steps_trans: "steps w1 w2 \<Longrightarrow> steps w2 w3 \<Longrightarrow> steps w1 w3"
  unfolding steps_def quiet_def
  by (auto intro: suffix_order.trans)

lemma steps_sock_op: "sock_op ev w = (r, w') \<Longrightarrow> (\<And>b. ev \<noteq> Enter b) \<Longrightarrow> steps w w'"
  by (cases ev) (auto simp: steps_def quiet_def sock_op_def log_def suffix_Cons split: list.splits)





lemma steps_write_message: "write_message m w = (r, w') \<Longrightarrow> steps w w'"
  by (auto simp: write_message_def steps_refl split: prod.splits option.splits reply.splits if_splits
           dest!: steps_sock_op)


lemma steps_recv_buf: "recv_buf ev w = (r, w') \<Longrightarrow> (\<And>b. ev \<noteq> Enter b) \<Longrightarrow> steps w w'"
  by (auto simp: recv_buf_def steps_refl split: prod.splits option.splits reply.splits if_splits
           dest!: steps_sock_op)

lemma steps_recv_timed: "recv_buf (TimedRecv t) w = (r, w') \<Longrightarrow> steps w w'"
  by (erule steps_recv_buf) simp


lemma steps_recv_header: "recv_header t d n w = (r, w') \<Longrightarrow> steps w w'"
proof (induction t d n w arbitrary: r w' rule: recv_header.induct)
  case (1 t d n w)
  have IH: "steps w1 w'" if "\<not> contains DELIM d" "recv_buf (TimedRecv t) w = (Ok buf, w1)"
    "buf \<noteq> []" "decode_buf w1 buf = Some s"
    "recv_header t (d @ s) (n + length buf) w1 = (r, w')" for buf w1 s r w'
    using "1.IH" [of "Ok buf" w1 buf s r w'] that by simp
  from "1.prems" show ?case
    apply (subst (asm) recv_header.simps)
    apply (auto simp: steps_refl split: prod.splits result.splits option.splits if_splits)
    by (blast intro: steps_trans dest: steps_recv_timed IH)+
qed








subsection \<open>The two entries of \<open>sendRecv\<close>\<close>

text \<open>
  The recursion unfolded once for each value of the flag. A call entered with the flag set never raises a \<open>TransportLayerException\<close>, so the handler around the recursive call of line 257 has nothing to catch.
\<close>

lemma sendRecv_retry:
  "sendRecv st m t True w =
     (case attempt st m t True (log (Enter True) w) of
        (Ok (Received d), w1) \<Rightarrow> (Ok (True, HttpResponse d), w1)
      | (Ok (Answered resp), w1) \<Rightarrow> (Ok (True, resp), w1)
      | (Raise (TransportLayerException e), w1) \<Rightarrow>
          (Ok (False,
               if contains (lit ''timed out'') (exc_str e) then failure e TIMEOUT_CODE
               else if contains_connection_closed (exc_str e) then failure e CONNECTION_CLOSED_CODE
               else HttpResponse (py_strip quotes (exc_str e))), w1)
      | (Raise x, w1) \<Rightarrow> (Raise x, w1)
      | (Blocked, w1) \<Rightarrow> (Blocked, w1))"
  by (subst sendRecv.simps)
     (simp add: failure_def Let_def split: prod.splits result.splits attempted.splits exn.splits)

lemma sendRecv_retry_not_caught:
  "fst (sendRecv st m t True w) \<noteq> Raise (TransportLayerException e)"
  by (simp add: sendRecv_retry split: prod.splits result.splits attempted.splits exn.splits)

lemma sendRecv_first:
  "sendRecv st m t False w =
     (case attempt st m t False (log (Enter False) w) of
        (Ok (Received d), w1) \<Rightarrow>
          if d = [] then sendRecv st m t True w1 else (Ok (True, HttpResponse d), w1)
      | (Ok (Answered resp), w1) \<Rightarrow> (Ok (True, resp), w1)
      | (Raise (TransportLayerException e), w1) \<Rightarrow>
          if contains (lit ''timed out'') (exc_str e) then (Ok (False, failure e TIMEOUT_CODE), w1)
          else sendRecv st m t True w1
      | (Raise x, w1) \<Rightarrow> (Raise x, w1)
      | (Blocked, w1) \<Rightarrow> (Blocked, w1))"
proof -
  have nc: "(case sendRecv st m t True w1 of
               (Raise (TransportLayerException e), w2) \<Rightarrow> f e w2
             | other \<Rightarrow> other) = sendRecv st m t True w1" for w1 and f :: "pystr \<Rightarrow> world \<Rightarrow> (bool \<times> response) result \<times> world"
  proof (cases "sendRecv st m t True w1")
    case (Pair r w2)
    have "r \<noteq> Raise (TransportLayerException e)" for e
      using sendRecv_retry_not_caught [of st m t w1 e] Pair by simp
    then show ?thesis
      using Pair by (cases r) (auto split: exn.splits)
  qed
  obtain r w1 where a: "attempt st m t False (log (Enter False) w) = (r, w1)"
    by (cases "attempt st m t False (log (Enter False) w)")
  show ?thesis
  proof (cases r)
    case (Ok x)
    then show ?thesis
      by (cases x) (simp_all add: sendRecv.simps [of st m t False w] a nc)
  next
    case (Raise x)
    then show ?thesis
      by (cases x) (simp_all add: sendRecv.simps [of st m t False w] a nc failure_def Let_def)
  next
    case Blocked
    then show ?thesis
      by (simp add: sendRecv.simps [of st m t False w] a)
  qed
qed

lemma sendRecv_not_caught:
  "fst (sendRecv st m t b w) \<noteq> Raise (TransportLayerException e)"
proof (cases b)
  case True
  then show ?thesis by (simp add: sendRecv_retry_not_caught)
next
  case False
  then show ?thesis
    using sendRecv_retry_not_caught [of st m t _ e]
    by (auto simp: sendRecv_first split: prod.splits result.splits attempted.splits exn.splits)
qed






subsection \<open>The trace of a call\<close>



lemma trace_closeSocket: "sock w \<Longrightarrow> closeSocket w = (r, w') \<Longrightarrow> trace w' = trace w @ [Close]"
  by (auto simp: closeSocket_def sock_op_def log_def
           split: prod.splits option.splits reply.splits list.splits)








subsection \<open>The read loops on a given script\<close>

text \<open>
  What each loop returns when the peer sends a given sequence of buffers that are not empty, by induction on that sequence.
\<close>

lemma recv_buf_reply:
  "sock w \<Longrightarrow> script w = Reply buf # rs \<Longrightarrow> recv_buf ev w = (Ok buf, (log ev w)\<lparr>script := rs\<rparr>)"
  by (simp add: recv_buf_def sock_op_def)

lemma decode_buf_after [simp]:
  "decode_buf ((log ev w)\<lparr>script := rs\<rparr>) = decode_buf w"
  by (rule ext) (simp add: decode_buf_def log_def)

lemma sock_after [simp]: "sock ((log ev w)\<lparr>script := rs\<rparr>) = sock w"
  by (simp add: log_def)

lemma script_after [simp]: "script ((log ev w)\<lparr>script := rs\<rparr>) = rs"
  by simp


lemma recv_header_found:
  assumes "sock w" and "script w = map Reply bufs @ rest"
    and "[] \<notin> set bufs" and "map (decode_buf w) bufs = map Some texts"
    and "\<forall>k<length texts. \<not> contains DELIM (data @ concat (take k texts))"
    and "contains DELIM (data @ concat texts)"
  shows "\<exists>w'. recv_header t data n w
              = (Ok (Next (data @ concat texts, n + length (concat bufs))), w')
            \<and> script w' = rest \<and> sock w' \<and> decode_buf w' = decode_buf w"
  using assms
proof (induction bufs arbitrary: w texts data n)
  case Nil
  then show ?case
    by (subst recv_header.simps) simp
next
  case (Cons b bs)
  from Cons.prems(4) obtain s ss where texts: "texts = s # ss" and s: "decode_buf w b = Some s"
    and ss: "map (decode_buf w) bs = map Some ss"
    by (cases texts) auto
  from Cons.prems(5) texts have nd: "\<not> contains DELIM data"
    by (auto dest: spec [of _ 0])
  let ?w = "(log (TimedRecv t) w)\<lparr>script := map Reply bs @ rest\<rparr>"
  have "\<forall>k<length ss. \<not> contains DELIM ((data @ s) @ concat (take k ss))"
  proof (intro allI impI)
    fix k assume "k < length ss"
    with Cons.prems(5) texts show "\<not> contains DELIM ((data @ s) @ concat (take k ss))"
      by (auto dest!: spec [of _ "Suc k"])
  qed
  with Cons.IH [of ?w ss "data @ s" "n + length b"] Cons.prems(1,3,6) ss texts
  obtain w' where "recv_header t (data @ s) (n + length b) ?w
                   = (Ok (Next ((data @ s) @ concat ss, (n + length b) + length (concat bs))), w')"
    and "script w' = rest" "sock w'" "decode_buf w' = decode_buf w"
    by auto
  with Cons.prems(1,2,3) nd s texts show ?case
    by (subst recv_header.simps) (auto simp: recv_buf_reply)
qed

lemma recv_chunks_closed:
  assumes "sock w" and "script w = map Reply bufs @ Reply [] # rest"
    and "[] \<notin> set bufs" and "map (decode_buf w) bufs = map Some texts"
    and "\<forall>k\<le>length texts. 0 < k \<longrightarrow> \<not> endswith (data @ concat (take k texts)) DELIM"
  shows "\<exists>w'. recv_chunks data w = (Ok (data @ concat texts), w') \<and> script w' = rest"
  using assms
proof (induction bufs arbitrary: w texts data)
  case Nil
  then show ?case
    by (subst recv_chunks.simps) (simp add: recv_buf_reply)
next
  case (Cons b bs)
  from Cons.prems(4) obtain s ss where texts: "texts = s # ss" and s: "decode_buf w b = Some s"
    and ss: "map (decode_buf w) bs = map Some ss"
    by (cases texts) auto
  from Cons.prems(5) texts have nd: "\<not> endswith (data @ s) DELIM"
    by (auto dest: spec [of _ 1])
  let ?w = "(log Recv w)\<lparr>script := map Reply bs @ Reply [] # rest\<rparr>"
  have "\<forall>k\<le>length ss. 0 < k \<longrightarrow> \<not> endswith ((data @ s) @ concat (take k ss)) DELIM"
  proof (intro allI impI)
    fix k assume "k \<le> length ss" "0 < k"
    with Cons.prems(5) texts show "\<not> endswith ((data @ s) @ concat (take k ss)) DELIM"
      by (auto dest!: spec [of _ "Suc k"])
  qed
  with Cons.IH [of ?w ss "data @ s"] Cons.prems(1,3) ss
  obtain w' where "recv_chunks (data @ s) ?w = (Ok ((data @ s) @ concat ss), w')"
    and "script w' = rest"
    by auto
  with Cons.prems(1,2,3) nd s texts show ?case
    by (subst recv_chunks.simps) (auto simp: recv_buf_reply)
qed

lemma recv_chunks_delim:
  assumes "sock w" and "script w = map Reply bufs @ Reply b # rest"
    and "[] \<notin> set bufs" and "map (decode_buf w) bufs = map Some texts"
    and "b \<noteq> []" and "decode_buf w b = Some s"
    and "\<forall>k\<le>length texts. 0 < k \<longrightarrow> \<not> endswith (data @ concat (take k texts)) DELIM"
    and "endswith (data @ concat texts @ s) DELIM"
  shows "\<exists>w'. recv_chunks data w = (Ok (data @ concat texts @ s), w') \<and> script w' = rest"
  using assms
proof (induction bufs arbitrary: w texts data)
  case Nil
  then show ?case
    by (subst recv_chunks.simps) (simp add: recv_buf_reply)
next
  case (Cons c cs)
  from Cons.prems(4) obtain x xs where texts: "texts = x # xs" and x: "decode_buf w c = Some x"
    and xs: "map (decode_buf w) cs = map Some xs"
    by (cases texts) auto
  from Cons.prems(7) texts have nd: "\<not> endswith (data @ x) DELIM"
    by (auto dest: spec [of _ 1])
  let ?w = "(log Recv w)\<lparr>script := map Reply cs @ Reply b # rest\<rparr>"
  have "\<forall>k\<le>length xs. 0 < k \<longrightarrow> \<not> endswith ((data @ x) @ concat (take k xs)) DELIM"
  proof (intro allI impI)
    fix k assume "k \<le> length xs" "0 < k"
    with Cons.prems(7) texts show "\<not> endswith ((data @ x) @ concat (take k xs)) DELIM"
      by (auto dest!: spec [of _ "Suc k"])
  qed
  with Cons.IH [of ?w xs "data @ x"] Cons.prems(1,3,5,6,8) xs texts
  obtain w' where "recv_chunks (data @ x) ?w = (Ok ((data @ x) @ concat xs @ s), w')"
    and "script w' = rest"
    by auto
  with Cons.prems(1,2,3) nd x texts show ?case
    by (subst recv_chunks.simps) (auto simp: recv_buf_reply)
qed



subsection \<open>The expected body length and the header phase\<close>









lemma recv_header_keeps:
  "recv_header t d n w = (Ok (Next x), w') \<Longrightarrow> \<not> contains DELIM d \<Longrightarrow> sock w'"
proof -
  assume a: "recv_header t d n w = (Ok (Next x), w')" and nd: "\<not> contains DELIM d"
  have "sock w"
  proof (rule ccontr)
    assume "\<not> sock w"
    with a nd show False
      by (subst (asm) recv_header.simps) (simp add: recv_buf_def)
  qed
  with steps_recv_header [OF a] show "sock w'"
    by (simp add: steps_def)
qed

lemma no_delim_in_nothing: "\<not> contains DELIM []"
  by (simp add: contains_def DELIM_def)


subsection \<open>Failures of the network stay inside\<close>

lemma network_outcome_simps [simp]:
  "network_outcome (Ok x) w"
  "network_outcome (Raise e) w = (case e of TransportLayerException _ \<Rightarrow> True | _ \<Rightarrow> False)"
  "network_outcome Blocked w = (script w = [])"
  by (simp_all add: network_outcome_def)





lemma decodable_iff:
  "decodable w \<longleftrightarrow> (\<forall>buf. Reply buf \<in> set (script w) \<longrightarrow> decode_buf w buf \<noteq> None)"
  unfolding decodable_def list_all_iff
  by (auto split: reply.splits)


lemma steps_throttled: "steps w w' \<Longrightarrow> throttled w' = throttled w"
  by (simp add: steps_def throttled_def)





lemma begin_unthrottled: "\<not> throttled w \<Longrightarrow> begin_throttle_request w = (Ok (), w)"
  by (simp add: begin_throttle_request_def)

lemma end_unthrottled: "\<not> throttled w \<Longrightarrow> end_throttle_request w = (Ok (), w)"
  by (simp add: end_throttle_request_def)











subsection \<open>A peer that has closed ends every call\<close>





lemma eofs_update [simp]: "eofs k (w\<lparr>sock := b\<rparr>) = eofs k w" "eofs k (w\<lparr>connected := b\<rparr>) = eofs k w"
  by (simp_all add: eofs_def)













lemma log_keeps [simp]:
  "throttled (log ev w) = throttled w" "decodable (log ev w) = decodable w"
  "eofs k (log ev w) = eofs k w"
proof -
  have "decode_buf (log ev w) = decode_buf w"
    by (intro ext) (simp add: decode_buf_def log_def)
  then show "decodable (log ev w) = decodable w"
    unfolding decodable_iff by (simp add: log_def)
qed (simp_all add: log_def throttled_def eofs_def)

lemma sentinel_or_parsed_simps [simp]:
  "sentinel_or_parsed (HttpResponse d)"
  "sentinel_or_parsed (failure e TIMEOUT_CODE)"
  "sentinel_or_parsed (failure e CONNECTION_CLOSED_CODE)"
  by (simp_all add: sentinel_or_parsed_def HttpResponse_def failure_def)






subsection \<open>The framer, and the semaphore without a throttle\<close>

lemma add_content_length_present:
  "contains (lit ''Content-Length: '') m \<Longrightarrow> add_content_length m = Inr m"
  by (simp add: add_content_length_def)

lemma add_content_length_absent:
  assumes "\<not> contains (lit ''Content-Length: '') m" and "str_find DELIM m = Some i"
  shows "add_content_length m
         = Inr (take i m @ CRLF @ (lit ''Content-Length: '' @ dec (length (drop (i + 4) m)))
                @ DELIM @ drop (i + 4) m)"
proof -
  have "length DELIM = 4" by (simp add: DELIM_def)
  with assms show ?thesis
    by (simp add: add_content_length_def get_start_of_body_def get_end_of_header_def
                  append_to_header_def Let_def)
qed

lemma encode_ascii: "\<forall>c\<in>set s. c < 128 \<Longrightarrow> encode s = Some s"
  by (induction s) (simp_all add: utf8_char_def)

lemma content_length_ascii_body:
  assumes "\<not> contains (lit ''Content-Length: '') m" and "str_find DELIM m = Some i"
    and "\<forall>c\<in>set (drop (i + 4) m). c < 128"
  shows "\<exists>body. encode (drop (i + 4) m) = Some body
           \<and> add_content_length m
             = Inr (take i m @ CRLF @ (lit ''Content-Length: '' @ dec (length body))
                    @ DELIM @ drop (i + 4) m)"
  using add_content_length_absent [OF assms(1,2)] encode_ascii [OF assms(3)]
  by simp

lemma unthrottled_send_leaves_gate:
  assumes "\<not> throttled w" and "sendRequest st m w = (r, w')"
  shows "classes w' = classes w \<and> now w' = now w"
proof (cases "frame (include_user_agent st) (version st) m")
  case (Inl e)
  with assms show ?thesis
    by (simp add: sendRequest_def)
next
  case (Inr m')
  obtain r1 w1 where wm: "write_message m' w = (r1, w1)"
    by (cases "write_message m' w")
  have t1: "\<not> throttled w1"
    using steps_throttled [OF steps_write_message [OF wm]] assms(1) by simp
  from assms(2) have "w' = w1"
    by (cases r1) (simp_all add: sendRequest_def Inr begin_unthrottled [OF assms(1)] wm
                                 end_unthrottled [OF t1])
  moreover from wm have "classes w1 = classes w \<and> now w1 = now w"
    by (auto simp: write_message_def sock_op_def log_def
             split: if_splits option.splits list.splits reply.splits)
  ultimately show ?thesis by simp
qed

subsection \<open>Characters and bytes in the third loop\<close>

text \<open>
  The header length of line 436 is counted in characters of the decoded text, the bytes
  received in octets. After a header with a character of two octets the third loop
  stops one octet before the end of the body.
\<close>

lemma accented_header_stops_early:
  "fst (recvResponse 5 (lit ''GET'')
     (connected_session [Reply accented_head, Reply (lit ''hell''), Reply (lit ''o'')]))
   = Ok (lit ''HTTP/1.1 200 OK'' @ CRLF @ lit ''X-Name: '' @ [233] @ CRLF
         @ lit ''Content-Length: 5'' @ DELIM @ lit ''hell'')
   \<and> script (snd (recvResponse 5 (lit ''GET'')
     (connected_session [Reply accented_head, Reply (lit ''hell''), Reply (lit ''o'')])))
   = [Reply (lit ''o'')]"
  by code_simp

section \<open>The claims\<close>






text \<open>
  C3. The framer is to insert \<open>Content-Length: n\<close> with \<open>n\<close> the exact byte length of
  the body. The body of this message is the one character U+00E9, two octets in UTF-8:
  the header line that is inserted says 1, and the octets handed to \<open>sendall\<close> end
  with a body of two.
\<close>

theorem content_length_counts_code_points:
  "frame False [] post_e_acute
     = Inr (lit ''POST /x HTTP/1.1'' @ CRLF @ lit ''Content-Length: 1'' @ DELIM @ [233])
   \<and> encode [233] = Some [195, 169]
   \<and> trace (snd (sendRequest plain_settings post_e_acute (connected_session [Reply []])))
     = [Sendall (lit ''POST /x HTTP/1.1'' @ CRLF @ lit ''Content-Length: 1'' @ DELIM
                 @ [195, 169])]"
  by code_simp

text \<open>
  C4. With a throttle interval of 100 ms set, a send is to take the semaphore, wait, write,
  record the time and release the semaphore. \<open>HttpSock\<close> has no attribute
  \<open>_HttpRawSock__request_sem\<close> (the semaphore is an attribute of \<open>HttpRawSock\<close>), so
  \<open>_begin_throttle_request\<close> raises \<open>AttributeError\<close>: the semaphore is not taken, nothing is
  written, and the exception leaves \<open>sendRecv\<close>.
\<close>

theorem throttled_send_raises_AttributeError:
  "class_dicts 0 HttpSock (mangle HttpRawSock ''__request_sem'') = None
   \<and> class_dicts 0 HttpRawSock (mangle HttpRawSock ''__request_sem'') = Some (Semaphore 1)
   \<and> fst (sendRequest throttle_settings get_request
            ((HttpRawSock_init throttle_settings 0 [Reply []])\<lparr>connected := True, sock := True\<rparr>))
     = Raise AttributeError
   \<and> trace (snd (sendRequest throttle_settings get_request
            ((HttpRawSock_init throttle_settings 0 [Reply []])\<lparr>connected := True, sock := True\<rparr>)))
     = []
   \<and> fst (sendRecv throttle_settings get_request 5 False
            (HttpRawSock_init throttle_settings 0 [Reply [], Reply [], Reply no_content]))
     = Raise AttributeError
   \<and> trace (snd (sendRecv throttle_settings get_request 5 False
            (HttpRawSock_init throttle_settings 0 [Reply [], Reply [], Reply no_content])))
     = [Enter False, Setup]"
  by code_simp



text \<open>
  C6, as stated: a header that declares chunked transfer encoding in any letter case,
  with a buffer that ends with the delimiter after the header phase, makes the assembler
  return at once. Here the header line is written in capitals and the whole response
  arrives in the first read: the assembler reads again, and the timeout of that second
  read becomes the outcome.
\<close>

theorem chunked_uppercase_counterexample:
  "declares_chunked_ci chunked_upper \<and> endswith chunked_upper DELIM
   \<and> fst (recv_header 5 [] 0 (connected_session [Reply chunked_upper, Throw (lit ''timed out'')]))
     = Ok (Next (chunked_upper, length chunked_upper))
   \<and> trace (snd (recv_header 5 [] 0
        (connected_session [Reply chunked_upper, Throw (lit ''timed out'')])))
     = [TimedRecv 5]
   \<and> fst (recvResponse 5 (lit ''GET'')
        (connected_session [Reply chunked_upper, Throw (lit ''timed out'')]))
     = Raise (TransportLayerException (lit ''Exception: timed out''))
   \<and> trace (snd (recvResponse 5 (lit ''GET'')
        (connected_session [Reply chunked_upper, Throw (lit ''timed out'')])))
     = [TimedRecv 5, Recv]"
  by code_simp

text \<open>
  C6, amended: the header counts as chunked when the buffer contains the line
  \<open>Transfer-Encoding: chunked\<close> or \<open>transfer-encoding: chunked\<close>, in one of these two
  spellings. Then, if the buffer ends with the delimiter after the header phase, the
  assembler returns it with no further read; otherwise it reads on, through every chunk
  after which the buffer does not end with the delimiter, until a chunk after which it
  does, or until a zero-length read.
\<close>

theorem chunked_two_spellings:
  assumes "recv_header t [] 0 w = (Ok (Next (data, n)), w1)" and "declares_chunked data"
  shows "(endswith data DELIM \<longrightarrow> recvResponse t meth w = (Ok data, w1))
    \<and> (\<not> endswith data DELIM \<and> [] \<notin> set bufs \<and> map (decode_buf w1) bufs = map Some texts
        \<and> (\<forall>k\<le>length texts. \<not> endswith (data @ concat (take k texts)) DELIM)
       \<longrightarrow> (script w1 = map Reply bufs @ Reply [] # rest
             \<longrightarrow> fst (recvResponse t meth w) = Ok (data @ concat texts)
                 \<and> script (snd (recvResponse t meth w)) = rest)
          \<and> (script w1 = map Reply bufs @ Reply b # rest \<and> b \<noteq> [] \<and> decode_buf w1 b = Some s
                \<and> endswith (data @ concat texts @ s) DELIM
             \<longrightarrow> fst (recvResponse t meth w) = Ok (data @ concat texts @ s)
                 \<and> script (snd (recvResponse t meth w)) = rest))"
proof (intro conjI impI)
  assume "endswith data DELIM"
  with assms show "recvResponse t meth w = (Ok data, w1)"
    by (simp add: recvResponse_def)
next
  assume a: "\<not> endswith data DELIM \<and> [] \<notin> set bufs \<and> map (decode_buf w1) bufs = map Some texts
        \<and> (\<forall>k\<le>length texts. \<not> endswith (data @ concat (take k texts)) DELIM)"
  have s1: "sock w1"
    using assms(1) no_delim_in_nothing by (rule recv_header_keeps)
  from a assms have r: "recvResponse t meth w = recv_chunks data w1"
    by (simp add: recvResponse_def)
  {
    assume "script w1 = map Reply bufs @ Reply [] # rest"
    with a s1 recv_chunks_closed [of w1 bufs rest texts data]
    obtain w' where "recv_chunks data w1 = (Ok (data @ concat texts), w')" "script w' = rest"
      by auto
    with r show "fst (recvResponse t meth w) = Ok (data @ concat texts)"
      and "script (snd (recvResponse t meth w)) = rest"
      by simp_all
  }
  {
    assume "script w1 = map Reply bufs @ Reply b # rest \<and> b \<noteq> [] \<and> decode_buf w1 b = Some s
                \<and> endswith (data @ concat texts @ s) DELIM"
    with a s1 recv_chunks_delim [of w1 bufs b rest texts s data]
    obtain w' where "recv_chunks data w1 = (Ok (data @ concat texts @ s), w')" "script w' = rest"
      by auto
    with r show "fst (recvResponse t meth w) = Ok (data @ concat texts @ s)"
      and "script (snd (recvResponse t meth w)) = rest"
      by simp_all
  }
qed

theorem chunked_two_spellings_witness:
  "fst (recvResponse 5 (lit ''GET'') (connected_session [Reply chunked_single, Reply (lit ''x'')]))
     = Ok chunked_single
   \<and> script (snd (recvResponse 5 (lit ''GET'')
        (connected_session [Reply chunked_single, Reply (lit ''x'')])))
     = [Reply (lit ''x'')]
   \<and> fst (recvResponse 5 (lit ''GET'')
        (connected_session [Reply chunked_head, Reply chunked_mid, Reply chunked_end,
                            Reply (lit ''x'')]))
     = Ok (chunked_head @ chunked_mid @ chunked_end)
   \<and> script (snd (recvResponse 5 (lit ''GET'')
        (connected_session [Reply chunked_head, Reply chunked_mid, Reply chunked_end,
                            Reply (lit ''x'')])))
     = [Reply (lit ''x'')]
   \<and> fst (recvResponse 5 (lit ''GET'')
        (connected_session [Reply chunked_head, Reply chunked_mid, Reply [], Reply (lit ''x'')]))
     = Ok (chunked_head @ chunked_mid)
   \<and> script (snd (recvResponse 5 (lit ''GET'')
        (connected_session [Reply chunked_head, Reply chunked_mid, Reply [], Reply (lit ''x'')])))
     = [Reply (lit ''x'')]"
proof -
  let ?x = "Reply (lit ''x'')"
  let ?w1 = "connected_session [Reply chunked_single, ?x]"
  let ?w2 = "connected_session [Reply chunked_head, Reply chunked_mid, Reply chunked_end, ?x]"
  let ?w3 = "connected_session [Reply chunked_head, Reply chunked_mid, Reply [], ?x]"
  let ?h1 = "recv_header 5 [] 0 ?w1"
  let ?h2 = "recv_header 5 [] 0 ?w2"
  let ?h3 = "recv_header 5 [] 0 ?w3"
  have short: "\<forall>k\<le>length [chunked_mid]. \<not> endswith (chunked_head @ concat (take k [chunked_mid])) DELIM"
  proof (intro allI impI)
    fix k :: nat assume "k \<le> length [chunked_mid]"
    then consider "k = 0" | "k = 1" by fastforce
    then show "\<not> endswith (chunked_head @ concat (take k [chunked_mid])) DELIM"
    proof cases
      case 1
      have "\<not> endswith chunked_head DELIM" by code_simp
      with 1 show ?thesis by simp
    next
      case 2
      have "\<not> endswith (chunked_head @ chunked_mid) DELIM" by code_simp
      with 2 show ?thesis by simp
    qed
  qed
  have "fst ?h1 = Ok (Next (chunked_single, length chunked_single))"
    by code_simp
  then have a1: "?h1 = (Ok (Next (chunked_single, length chunked_single)), snd ?h1)"
    by (simp add: prod_eq_iff)
  have b1: "declares_chunked chunked_single" "endswith chunked_single DELIM"
    "script (snd ?h1) = [?x]"
    by code_simp+
  have "fst ?h2 = Ok (Next (chunked_head, length chunked_head))"
    by code_simp
  then have a2: "?h2 = (Ok (Next (chunked_head, length chunked_head)), snd ?h2)"
    by (simp add: prod_eq_iff)
  have b2: "declares_chunked chunked_head" "\<not> endswith chunked_head DELIM"
    "[] \<notin> set [chunked_mid]"
    "map (decode_buf (snd ?h2)) [chunked_mid] = map Some [chunked_mid]"
    "script (snd ?h2) = map Reply [chunked_mid] @ Reply chunked_end # [?x]"
    "chunked_end \<noteq> []" "decode_buf (snd ?h2) chunked_end = Some chunked_end"
    "endswith (chunked_head @ concat [chunked_mid] @ chunked_end) DELIM"
    by code_simp+
  have "fst ?h3 = Ok (Next (chunked_head, length chunked_head))"
    by code_simp
  then have a3: "?h3 = (Ok (Next (chunked_head, length chunked_head)), snd ?h3)"
    by (simp add: prod_eq_iff)
  have b3: "map (decode_buf (snd ?h3)) [chunked_mid] = map Some [chunked_mid]"
    "script (snd ?h3) = map Reply [chunked_mid] @ Reply [] # [?x]"
    by code_simp+
  from chunked_two_spellings [OF a1 b1(1), of "lit ''GET''"] b1
  have 1: "fst (recvResponse 5 (lit ''GET'') ?w1) = Ok chunked_single
           \<and> script (snd (recvResponse 5 (lit ''GET'') ?w1)) = [?x]"
    by simp
  from chunked_two_spellings [OF a2 b2(1), where bufs = "[chunked_mid]" and texts = "[chunked_mid]"
         and b = chunked_end and s = chunked_end and rest = "[?x]" and meth = "lit ''GET''"]
       b2 short
  have 2: "fst (recvResponse 5 (lit ''GET'') ?w2) = Ok (chunked_head @ concat [chunked_mid] @ chunked_end)
           \<and> script (snd (recvResponse 5 (lit ''GET'') ?w2)) = [?x]"
    by blast
  from chunked_two_spellings [OF a3 b2(1), where bufs = "[chunked_mid]" and texts = "[chunked_mid]"
         and rest = "[?x]" and meth = "lit ''GET''"]
       b2(2,3) b3 short
  have 3: "fst (recvResponse 5 (lit ''GET'') ?w3) = Ok (chunked_head @ concat [chunked_mid])
           \<and> script (snd (recvResponse 5 (lit ''GET'') ?w3)) = [?x]"
    by blast
  from 1 2 3 show ?thesis by simp
qed










end
